theory Spec2Isabelle
  imports Complex_Main
begin

section \<open>House price prediction service: the request handler of main.py\<close>

text \<open>
  The development embeds \<^verbatim>\<open>src/main.py\<close>: the module-level loading of the two
  artifacts (lines 16-20), the constant \<^verbatim>\<open>feature_order\<close> (lines 22-28), the request
  record \<^verbatim>\<open>HouseData\<close> (lines 30-42) and the handler \<^verbatim>\<open>predict\<close> (lines 44-75).

  Modelling conventions.
  \<^item> The fields of the record are Python values: an \<^verbatim>\<open>int\<close> is a HOL integer of any
    size, the \<^verbatim>\<open>float\<close> is a value of a type \<open>'f\<close> about which nothing is assumed, so
    that it may hold every binary64 value, the infinities and NaN included.
  \<^item> The data frame built by the handler has exactly one row, so it is an association
    list from column names to cells, in column order. A column made from a Python
    integer that fits in 64 signed bits has the type int64, and arithmetic on int64
    columns wraps around silently. Any other integer column is wide.
  \<^item> What the numeric library computes on floats (the binary64 product, the conversion
    of an integer to a float) and on wide integer columns is a parameter of the model,
    the record \<open>numlib\<close>: no property below depends on what these operations return.
  \<^item> The scaler and the model are the two opaque collaborators. Each is a function that
    either raises or returns; the one-by-one frame handed to the scaler is identified
    with its single entry.
  \<^item> A raised exception is a value of type \<open>exc\<close>; the type stands for the instances of
    Python's \<^verbatim>\<open>Exception\<close>, which is what both \<^verbatim>\<open>except\<close> clauses of the module catch.
\<close>

subsection \<open>Exceptions\<close>

datatype exc =
    KeyError string
  | IndexError string
  | RuntimeError string
  | Exception string

text \<open>\<^verbatim>\<open>str(e)\<close>: the message; a \<^verbatim>\<open>KeyError\<close> prints its key quoted.\<close>

fun str :: "exc \<Rightarrow> string" where
  "str (KeyError k) = [CHR 0x27] @ k @ [CHR 0x27]"
| "str (IndexError m) = m"
| "str (RuntimeError m) = m"
| "str (Exception m) = m"

text \<open>Sequencing of two steps either of which may raise.\<close>

fun exc_bind :: "exc + 'a \<Rightarrow> ('a \<Rightarrow> exc + 'b) \<Rightarrow> exc + 'b" where
  "exc_bind (Inl e) f = Inl e"
| "exc_bind (Inr x) f = f x"

subsection \<open>Signed 64-bit integers\<close>

definition int64 :: "int \<Rightarrow> bool" where
  "int64 i \<longleftrightarrow> - (2 ^ 63) \<le> i \<and> i < 2 ^ 63"

text \<open>The value left in an int64 column by a result \<open>i\<close>: \<open>i\<close> modulo \<open>2 ^ 64\<close>, signed.\<close>

definition wrap64 :: "int \<Rightarrow> int" where
  "wrap64 i = (i + 2 ^ 63) mod 2 ^ 64 - 2 ^ 63"

subsection \<open>Cells and one-row data frames\<close>

text \<open>
  A cell is the entry of a column together with the column's type: int64, a wider
  integer type (unsigned or Python objects), or float.
\<close>

datatype 'f cell = IntV int | WideV int | FloatV 'f

text \<open>The column that the frame constructor makes from one Python integer.\<close>

definition int_cell :: "int \<Rightarrow> 'f cell" where
  "int_cell i = (if int64 i then IntV i else WideV i)"

record 'f numlib =
  float_mul :: "'f \<Rightarrow> 'f \<Rightarrow> 'f"
  float_of_int :: "int \<Rightarrow> 'f"
  wide_mul :: "'f cell \<Rightarrow> 'f cell \<Rightarrow> exc + 'f cell"
  wide_add :: "'f cell \<Rightarrow> 'f cell \<Rightarrow> exc + 'f cell"
  wide_sum :: "'f cell list \<Rightarrow> exc + 'f cell"

fun to_float :: "'f numlib \<Rightarrow> 'f cell \<Rightarrow> 'f" where
  "to_float lib (FloatV x) = x"
| "to_float lib (IntV i) = float_of_int lib i"
| "to_float lib (WideV i) = float_of_int lib i"

text \<open>
  Elementwise product of two columns. Two int64 columns give an int64 column, wrapped;
  an int64 column meets a float column as a float; a wide column is left to the library.
\<close>

fun cell_mul :: "'f numlib \<Rightarrow> 'f cell \<Rightarrow> 'f cell \<Rightarrow> exc + 'f cell" where
  "cell_mul lib (IntV a) (IntV b) = Inr (IntV (wrap64 (a * b)))"
| "cell_mul lib (FloatV x) (FloatV y) = Inr (FloatV (float_mul lib x y))"
| "cell_mul lib (FloatV x) (IntV b) =
     Inr (FloatV (float_mul lib x (float_of_int lib b)))"
| "cell_mul lib (IntV a) (FloatV y) =
     Inr (FloatV (float_mul lib (float_of_int lib a) y))"
| "cell_mul lib a b = wide_mul lib a b"

text \<open>
  Elementwise sum of two columns. Two int64 columns give an int64 column, wrapped;
  every other pair is left to the library.
\<close>

fun cell_add :: "'f numlib \<Rightarrow> 'f cell \<Rightarrow> 'f cell \<Rightarrow> exc + 'f cell" where
  "cell_add lib (IntV a) (IntV b) = Inr (IntV (wrap64 (a + b)))"
| "cell_add lib a b = wide_add lib a b"

text \<open>\<^verbatim>\<open>a + b + c + d\<close> on columns: added from left to right.\<close>

definition add4 ::
  "'f numlib \<Rightarrow> 'f cell \<Rightarrow> 'f cell \<Rightarrow> 'f cell \<Rightarrow> 'f cell \<Rightarrow> exc + 'f cell" where
  "add4 lib a b c d =
     exc_bind (cell_add lib a b) (\<lambda>ab.
     exc_bind (cell_add lib ab c) (\<lambda>abc.
     cell_add lib abc d))"

type_synonym 'f dataframe = "(string \<times> 'f cell) list"

definition columns :: "'f dataframe \<Rightarrow> string list" where
  "columns df = map fst df"

text \<open>\<^verbatim>\<open>df[c]\<close>: the cell of column \<open>c\<close>, or \<^verbatim>\<open>KeyError\<close>.\<close>

fun getitem :: "'f dataframe \<Rightarrow> string \<Rightarrow> exc + 'f cell" where
  "getitem [] c = Inl (KeyError c)"
| "getitem ((k, v) # df) c = (if k = c then Inr v else getitem df c)"

text \<open>\<^verbatim>\<open>df[c] = v\<close>: overwrite the column in place, or append a new last column.\<close>

fun setitem :: "'f dataframe \<Rightarrow> string \<Rightarrow> 'f cell \<Rightarrow> 'f dataframe" where
  "setitem [] c v = [(c, v)]"
| "setitem ((k, x) # df) c v =
     (if k = c then (k, v) # df else (k, x) # setitem df c v)"

text \<open>\<^verbatim>\<open>df[cs]\<close>: the columns \<open>cs\<close> in the order asked for, or \<^verbatim>\<open>KeyError\<close>.\<close>

fun getitems :: "'f dataframe \<Rightarrow> string list \<Rightarrow> exc + 'f dataframe" where
  "getitems df [] = Inr []"
| "getitems df (c # cs) =
     exc_bind (getitem df c) (\<lambda>v.
     exc_bind (getitems df cs) (\<lambda>rest. Inr ((c, v) # rest)))"

text \<open>The entries of the cells when every one of them is int64.\<close>

fun int64_values :: "'f cell list \<Rightarrow> int list option" where
  "int64_values [] = Some []"
| "int64_values (IntV i # cs) = map_option ((#) i) (int64_values cs)"
| "int64_values (c # cs) = None"

text \<open>
  \<^verbatim>\<open>df.sum(axis=1)\<close>: the sum along the single row. Over int64 columns it is an int64
  sum, wrapped; a frame with no column or with another column type is left to the
  library.
\<close>

definition sum_axis1 :: "'f numlib \<Rightarrow> 'f dataframe \<Rightarrow> exc + 'f cell" where
  "sum_axis1 lib df =
     (case (if df = [] then None else int64_values (map snd df)) of
        Some vs \<Rightarrow> Inr (IntV (wrap64 (sum_list vs)))
      | None \<Rightarrow> wide_sum lib (map snd df))"

subsection \<open>The request record\<close>

record 'f HouseData =
  area :: 'f
  bedrooms :: int
  bathrooms :: int
  stories :: int
  parking :: int
  furnishingstatus :: int
  mainroad_yes :: int
  guestroom_yes :: int
  basement_yes :: int
  hotwaterheating_yes :: int
  airconditioning_yes :: int
  prefarea_yes :: int

text \<open>\<^verbatim>\<open>pd.DataFrame([data.dict()])\<close>: one column per field, in declaration order.\<close>

definition dict :: "'f HouseData \<Rightarrow> 'f dataframe" where
  "dict data =
    [(''area'', FloatV (area data)),
     (''bedrooms'', int_cell (bedrooms data)),
     (''bathrooms'', int_cell (bathrooms data)),
     (''stories'', int_cell (stories data)),
     (''parking'', int_cell (parking data)),
     (''furnishingstatus'', int_cell (furnishingstatus data)),
     (''mainroad_yes'', int_cell (mainroad_yes data)),
     (''guestroom_yes'', int_cell (guestroom_yes data)),
     (''basement_yes'', int_cell (basement_yes data)),
     (''hotwaterheating_yes'', int_cell (hotwaterheating_yes data)),
     (''airconditioning_yes'', int_cell (airconditioning_yes data)),
     (''prefarea_yes'', int_cell (prefarea_yes data))]"

subsection \<open>Module constants and collaborators\<close>

definition feature_order :: "string list" where
  "feature_order =
    [''area'', ''bedrooms'', ''bathrooms'', ''stories'', ''parking'',
     ''furnishingstatus'', ''mainroad_yes'', ''guestroom_yes'',
     ''basement_yes'', ''hotwaterheating_yes'', ''airconditioning_yes'',
     ''prefarea_yes'', ''area_bedrooms'', ''stories_bathrooms'',
     ''luxury_index'', ''amenities_count'']"

definition amenity_cols :: "string list" where
  "amenity_cols =
    [''mainroad_yes'', ''guestroom_yes'', ''basement_yes'',
     ''hotwaterheating_yes'', ''airconditioning_yes'', ''prefarea_yes'']"

text \<open>\<^verbatim>\<open>scaler.transform\<close> and \<^verbatim>\<open>model.predict\<close>: they raise or they return.\<close>

type_synonym 'f scaler = "'f \<Rightarrow> exc + 'f"

type_synonym 'f model = "'f dataframe \<Rightarrow> exc + 'f list"

subsection \<open>The handler\<close>

text \<open>
  Lines 47-69 of \<^verbatim>\<open>predict\<close>: the frame is built, its area is scaled, the four derived
  columns are added and the columns are put in \<open>feature_order\<close>.
\<close>

definition build_features ::
  "'f numlib \<Rightarrow> 'f scaler \<Rightarrow> 'f HouseData \<Rightarrow> exc + 'f dataframe" where
  "build_features lib scaler data =
    (let df = dict data in
     exc_bind (getitem df ''area'') (\<lambda>raw.
     exc_bind (scaler (to_float lib raw)) (\<lambda>scaled.
     let df = setitem df ''area'' (FloatV scaled) in
     exc_bind (getitem df ''area'') (\<lambda>a.
     exc_bind (getitem df ''bedrooms'') (\<lambda>b.
     exc_bind (cell_mul lib a b) (\<lambda>area_bedrooms.
     let df = setitem df ''area_bedrooms'' area_bedrooms in
     exc_bind (getitem df ''stories'') (\<lambda>s.
     exc_bind (getitem df ''bathrooms'') (\<lambda>t.
     exc_bind (cell_mul lib s t) (\<lambda>stories_bathrooms.
     let df = setitem df ''stories_bathrooms'' stories_bathrooms in
     exc_bind (getitems df amenity_cols) (\<lambda>amenities.
     exc_bind (sum_axis1 lib amenities) (\<lambda>amenities_count.
     let df = setitem df ''amenities_count'' amenities_count in
     exc_bind (getitem df ''airconditioning_yes'') (\<lambda>ac.
     exc_bind (getitem df ''hotwaterheating_yes'') (\<lambda>hw.
     exc_bind (getitem df ''guestroom_yes'') (\<lambda>gr.
     exc_bind (getitem df ''basement_yes'') (\<lambda>bm.
     exc_bind (add4 lib ac hw gr bm) (\<lambda>luxury_index.
     let df = setitem df ''luxury_index'' luxury_index in
     getitems df feature_order))))))))))))))))"

text \<open>\<^verbatim>\<open>pred[0]\<close>: the first output, or \<^verbatim>\<open>IndexError\<close> on an empty result.\<close>

fun first_output :: "'f list \<Rightarrow> exc + 'f" where
  "first_output [] =
     Inl (IndexError ''index 0 is out of bounds for axis 0 with size 0'')"
| "first_output (p # ps) = Inr p"

text \<open>The body of the \<^verbatim>\<open>try\<close> block, lines 47-72, up to the value that is returned.\<close>

definition predict_try ::
  "'f numlib \<Rightarrow> 'f scaler \<Rightarrow> 'f model \<Rightarrow> 'f HouseData \<Rightarrow> exc + 'f" where
  "predict_try lib scaler model data =
     exc_bind (build_features lib scaler data) (\<lambda>df.
     exc_bind (model df) (\<lambda>pred.
     first_output pred))"

text \<open>The payload: a dictionary from keys to a float or a string.\<close>

datatype 'f json = JFloat 'f | JString string

type_synonym 'f payload = "(string \<times> 'f json) list"

text \<open>The handler with its \<^verbatim>\<open>except Exception\<close> clause, lines 46-75.\<close>

definition predict ::
  "'f numlib \<Rightarrow> 'f scaler \<Rightarrow> 'f model \<Rightarrow> 'f HouseData \<Rightarrow> 'f payload" where
  "predict lib scaler model data =
     (case predict_try lib scaler model data of
        Inr p \<Rightarrow> [(''prediction'', JFloat p)]
      | Inl e \<Rightarrow> [(''error'', JString (str e))])"

subsection \<open>Start of the module\<close>

text \<open>
  What the module has bound once its top level has run: the two artifacts and the
  routes registered on the application. \<^verbatim>\<open>joblib.load\<close> is a parameter: a function
  from a path to an exception or an object.
\<close>

record 'a module_state =
  loaded_model :: 'a
  loaded_scaler :: 'a
  routes :: "string list"

definition load_artifacts :: "(string \<Rightarrow> exc + 'a) \<Rightarrow> exc + ('a \<times> 'a)" where
  "load_artifacts joblib_load =
     (case exc_bind (joblib_load ''model.pkl'') (\<lambda>m.
           exc_bind (joblib_load ''scaler.pkl'') (\<lambda>s. Inr (m, s))) of
        Inr ms \<Rightarrow> Inr ms
      | Inl e \<Rightarrow>
          Inl (RuntimeError (''Error loading model or scaler: '' @ str e)))"

definition module_init :: "(string \<Rightarrow> exc + 'a) \<Rightarrow> exc + 'a module_state" where
  "module_init joblib_load =
     exc_bind (load_artifacts joblib_load) (\<lambda>ms.
     Inr \<lparr>loaded_model = fst ms, loaded_scaler = snd ms,
          routes = [''/predict'']\<rparr>)"

subsection \<open>Fixtures\<close>

text \<open>
  The library at the concrete inputs used below. The floats that occur there are
  integers and halves of small size, on which the binary64 product and the conversion
  from an integer are exact; no wide column occurs, and the operations on wide columns
  are given a value only to make the record complete.
\<close>

definition exact_lib :: "real numlib" where
  "exact_lib =
     \<lparr>float_mul = (\<lambda>x y. x * y),
      float_of_int = (\<lambda>i. of_int i),
      wide_mul = (\<lambda>a b. Inl (Exception ''wide column'')),
      wide_add = (\<lambda>a b. Inl (Exception ''wide column'')),
      wide_sum = (\<lambda>cs. Inl (Exception ''wide column''))\<rparr>"

text \<open>The identity scaler, the summing model and the sample record of the specification.\<close>

definition identity_scaler :: "'f scaler" where
  "identity_scaler x = Inr x"

definition values_of :: "real dataframe \<Rightarrow> real list" where
  "values_of df = map (\<lambda>kv. to_float exact_lib (snd kv)) df"

definition sum_model :: "real model" where
  "sum_model df = Inr [sum_list (values_of df)]"

definition sample_house :: "real HouseData" where
  "sample_house =
     \<lparr>area = 1000, bedrooms = 2, bathrooms = 1, stories = 1, parking = 1,
      furnishingstatus = 1, mainroad_yes = 1, guestroom_yes = 0,
      basement_yes = 0, hotwaterheating_yes = 0, airconditioning_yes = 1,
      prefarea_yes = 0\<rparr>"

text \<open>Further records and collaborators at which the properties are instantiated.\<close>

definition roadside_house :: "real HouseData" where
  "roadside_house =
     \<lparr>area = 1500, bedrooms = 3, bathrooms = 2, stories = 2, parking = 0,
      furnishingstatus = 0, mainroad_yes = 1, guestroom_yes = 0,
      basement_yes = 0, hotwaterheating_yes = 0, airconditioning_yes = 0,
      prefarea_yes = 1\<rparr>"

definition full_house :: "real HouseData" where
  "full_house =
     \<lparr>area = 2000, bedrooms = 4, bathrooms = 3, stories = 2, parking = 2,
      furnishingstatus = 2, mainroad_yes = 1, guestroom_yes = 1,
      basement_yes = 1, hotwaterheating_yes = 1, airconditioning_yes = 1,
      prefarea_yes = 1\<rparr>"

text \<open>Records inside the int64 range on which a derived column overflows.\<close>

definition tower_house :: "real HouseData" where
  "tower_house =
     \<lparr>area = 1000, bedrooms = 2, bathrooms = 2 ^ 32, stories = 2 ^ 32, parking = 1,
      furnishingstatus = 1, mainroad_yes = 1, guestroom_yes = 0,
      basement_yes = 0, hotwaterheating_yes = 0, airconditioning_yes = 1,
      prefarea_yes = 0\<rparr>"

definition corner_house :: "real HouseData" where
  "corner_house =
     \<lparr>area = 1000, bedrooms = 2, bathrooms = 1, stories = 1, parking = 1,
      furnishingstatus = 1, mainroad_yes = 2 ^ 62, guestroom_yes = 0,
      basement_yes = 0, hotwaterheating_yes = 0, airconditioning_yes = 0,
      prefarea_yes = 2 ^ 62\<rparr>"

definition boiler_house :: "real HouseData" where
  "boiler_house =
     \<lparr>area = 1000, bedrooms = 2, bathrooms = 1, stories = 1, parking = 1,
      furnishingstatus = 1, mainroad_yes = 0, guestroom_yes = 0,
      basement_yes = 0, hotwaterheating_yes = 2 ^ 62, airconditioning_yes = 2 ^ 62,
      prefarea_yes = 0\<rparr>"

definition per_thousand_scaler :: "real scaler" where
  "per_thousand_scaler x = Inr (x / 1000)"

definition failing_scaler :: "real scaler" where
  "failing_scaler x = Inl (Exception ''could not convert string to float'')"

definition failing_model :: "real model" where
  "failing_model df = Inl (Exception ''X has 16 features, but the model expects 12'')"

definition silent_model :: "real model" where
  "silent_model df = Inr []"

definition missing_scaler_load :: "string \<Rightarrow> exc + nat" where
  "missing_scaler_load path =
     (if path = ''model.pkl'' then Inr 7
      else Inl (Exception ''No such file or directory''))"

definition missing_model_load :: "string \<Rightarrow> exc + nat" where
  "missing_model_load path =
     (if path = ''scaler.pkl'' then Inr 9
      else Inl (Exception ''No such file or directory''))"

definition both_present_load :: "string \<Rightarrow> exc + nat" where
  "both_present_load path =
     (if path = ''model.pkl'' then Inr 7
      else if path = ''scaler.pkl'' then Inr 9
      else Inl (Exception ''No such file or directory''))"

section \<open>Properties\<close>

subsection \<open>The assembled frame in closed form\<close>

text \<open>Every integer field of the record fits in 64 signed bits.\<close>

definition int64_fields :: "'f HouseData \<Rightarrow> bool" where
  "int64_fields data \<longleftrightarrow>
     int64 (bedrooms data) \<and> int64 (bathrooms data) \<and> int64 (stories data)
     \<and> int64 (parking data) \<and> int64 (furnishingstatus data)
     \<and> int64 (mainroad_yes data) \<and> int64 (guestroom_yes data)
     \<and> int64 (basement_yes data) \<and> int64 (hotwaterheating_yes data)
     \<and> int64 (airconditioning_yes data) \<and> int64 (prefarea_yes data)"

text \<open>The six amenity columns of the frame, as \<^verbatim>\<open>df[amenity_cols]\<close> selects them.\<close>

definition amenity_cells :: "'f HouseData \<Rightarrow> 'f dataframe" where
  "amenity_cells data =
    [(''mainroad_yes'', int_cell (mainroad_yes data)),
     (''guestroom_yes'', int_cell (guestroom_yes data)),
     (''basement_yes'', int_cell (basement_yes data)),
     (''hotwaterheating_yes'', int_cell (hotwaterheating_yes data)),
     (''airconditioning_yes'', int_cell (airconditioning_yes data)),
     (''prefarea_yes'', int_cell (prefarea_yes data))]"

text \<open>The frame in feature order, given the scaled area and the four derived cells.\<close>

definition assembled ::
  "'f \<Rightarrow> 'f HouseData \<Rightarrow> 'f cell \<Rightarrow> 'f cell \<Rightarrow> 'f cell \<Rightarrow> 'f cell \<Rightarrow> 'f dataframe"
  where
  "assembled scaled data ab sb li am =
    [(''area'', FloatV scaled),
     (''bedrooms'', int_cell (bedrooms data)),
     (''bathrooms'', int_cell (bathrooms data)),
     (''stories'', int_cell (stories data)),
     (''parking'', int_cell (parking data)),
     (''furnishingstatus'', int_cell (furnishingstatus data)),
     (''mainroad_yes'', int_cell (mainroad_yes data)),
     (''guestroom_yes'', int_cell (guestroom_yes data)),
     (''basement_yes'', int_cell (basement_yes data)),
     (''hotwaterheating_yes'', int_cell (hotwaterheating_yes data)),
     (''airconditioning_yes'', int_cell (airconditioning_yes data)),
     (''prefarea_yes'', int_cell (prefarea_yes data)),
     (''area_bedrooms'', ab),
     (''stories_bathrooms'', sb),
     (''luxury_index'', li),
     (''amenities_count'', am)]"

text \<open>The cell of a named column in the frame that is handed to the model.\<close>

definition feature ::
  "'f numlib \<Rightarrow> 'f scaler \<Rightarrow> 'f HouseData \<Rightarrow> string \<Rightarrow> exc + 'f cell" where
  "feature lib scaler data c =
     exc_bind (build_features lib scaler data) (\<lambda>df. getitem df c)"

lemma exc_bind_Inr_iff:
  "exc_bind m f = Inr y \<longleftrightarrow> (\<exists>x. m = Inr x \<and> f x = Inr y)"
  by (cases m) auto

lemma build_features_Inr_iff:
  "build_features lib scaler data = Inr df \<longleftrightarrow>
     (\<exists>scaled ab sb am li.
        scaler (area data) = Inr scaled
        \<and> cell_mul lib (FloatV scaled) (int_cell (bedrooms data)) = Inr ab
        \<and> cell_mul lib (int_cell (stories data)) (int_cell (bathrooms data)) = Inr sb
        \<and> sum_axis1 lib (amenity_cells data) = Inr am
        \<and> add4 lib (int_cell (airconditioning_yes data))
                    (int_cell (hotwaterheating_yes data))
                    (int_cell (guestroom_yes data))
                    (int_cell (basement_yes data)) = Inr li
        \<and> df = assembled scaled data ab sb li am)"
  by (simp add: build_features_def dict_def amenity_cols_def feature_order_def
      amenity_cells_def assembled_def exc_bind_Inr_iff)
     (rule iffI; clarsimp)

lemma build_features_InrD:
  assumes "build_features lib scaler data = Inr df"
  obtains scaled ab sb am li where
    "scaler (area data) = Inr scaled"
    "cell_mul lib (FloatV scaled) (int_cell (bedrooms data)) = Inr ab"
    "cell_mul lib (int_cell (stories data)) (int_cell (bathrooms data)) = Inr sb"
    "sum_axis1 lib (amenity_cells data) = Inr am"
    "add4 lib (int_cell (airconditioning_yes data))
              (int_cell (hotwaterheating_yes data))
              (int_cell (guestroom_yes data))
              (int_cell (basement_yes data)) = Inr li"
    "df = assembled scaled data ab sb li am"
  using assms unfolding build_features_Inr_iff by blast

lemma build_features_raised:
  assumes "scaler (area data) = Inl e"
  shows "build_features lib scaler data = Inl e"
  using assms by (simp add: build_features_def dict_def)

lemma int64_wrap64: "int64 (wrap64 i)"
  by (simp add: int64_def wrap64_def)

lemma wrap64_id: "int64 i \<Longrightarrow> wrap64 i = i"
  by (simp add: int64_def wrap64_def)

lemma wrap64_add_left: "wrap64 (wrap64 a + b) = wrap64 (a + b)"
proof -
  have "(wrap64 a + b + 2 ^ 63) mod 2 ^ 64
          = ((a + 2 ^ 63) mod 2 ^ 64 + b) mod (2 ^ 64 :: int)"
    unfolding wrap64_def by (simp add: algebra_simps)
  also have "\<dots> = (a + 2 ^ 63 + b) mod 2 ^ 64"
    by (rule mod_add_left_eq)
  finally show ?thesis by (simp add: wrap64_def algebra_simps)
qed

lemma int_cell_int64: "int64 i \<Longrightarrow> int_cell i = IntV i"
  by (simp add: int_cell_def)

lemma add4_int64:
  "add4 lib (IntV a) (IntV b) (IntV c) (IntV d) = Inr (IntV (wrap64 (a + b + c + d)))"
  by (simp add: add4_def wrap64_add_left)

lemma sum_axis1_int64:
  assumes "int64 (mainroad_yes data)" "int64 (guestroom_yes data)"
    "int64 (basement_yes data)" "int64 (hotwaterheating_yes data)"
    "int64 (airconditioning_yes data)" "int64 (prefarea_yes data)"
  shows "sum_axis1 lib (amenity_cells data) =
     Inr (IntV (wrap64 (mainroad_yes data + guestroom_yes data + basement_yes data
                        + hotwaterheating_yes data + airconditioning_yes data
                        + prefarea_yes data)))"
  using assms by (simp add: sum_axis1_def amenity_cells_def int_cell_int64 add.assoc)

lemma build_features_int64:
  assumes "scaler (area data) = Inr scaled" and "int64_fields data"
  shows "build_features lib scaler data =
     Inr (assembled scaled data
            (FloatV (float_mul lib scaled (float_of_int lib (bedrooms data))))
            (IntV (wrap64 (stories data * bathrooms data)))
            (IntV (wrap64 (airconditioning_yes data + hotwaterheating_yes data
                           + guestroom_yes data + basement_yes data)))
            (IntV (wrap64 (mainroad_yes data + guestroom_yes data
                           + basement_yes data + hotwaterheating_yes data
                           + airconditioning_yes data + prefarea_yes data))))"
proof -
  from assms(2) have fits:
    "int64 (bedrooms data)" "int64 (bathrooms data)" "int64 (stories data)"
    "int64 (mainroad_yes data)" "int64 (guestroom_yes data)"
    "int64 (basement_yes data)" "int64 (hotwaterheating_yes data)"
    "int64 (airconditioning_yes data)" "int64 (prefarea_yes data)"
    by (simp_all add: int64_fields_def)
  have "cell_mul lib (FloatV scaled) (int_cell (bedrooms data))
          = Inr (FloatV (float_mul lib scaled (float_of_int lib (bedrooms data))))"
    by (simp add: int_cell_int64 fits)
  moreover have
    "cell_mul lib (int_cell (stories data)) (int_cell (bathrooms data))
       = Inr (IntV (wrap64 (stories data * bathrooms data)))"
    by (simp add: int_cell_int64 fits)
  moreover have
    "add4 lib (int_cell (airconditioning_yes data))
              (int_cell (hotwaterheating_yes data))
              (int_cell (guestroom_yes data))
              (int_cell (basement_yes data))
       = Inr (IntV (wrap64 (airconditioning_yes data + hotwaterheating_yes data
                           + guestroom_yes data + basement_yes data)))"
    by (simp add: int_cell_int64 fits add4_int64)
  moreover note sum_axis1_int64 [OF fits(4-9), of lib] assms(1)
  ultimately show ?thesis
    unfolding build_features_Inr_iff by blast
qed

lemma getitem_assembled:
  "getitem (assembled scaled data ab sb li am) ''area'' = Inr (FloatV scaled)"
  "getitem (assembled scaled data ab sb li am) ''bedrooms''
     = Inr (int_cell (bedrooms data))"
  "getitem (assembled scaled data ab sb li am) ''bathrooms''
     = Inr (int_cell (bathrooms data))"
  "getitem (assembled scaled data ab sb li am) ''stories''
     = Inr (int_cell (stories data))"
  "getitem (assembled scaled data ab sb li am) ''parking''
     = Inr (int_cell (parking data))"
  "getitem (assembled scaled data ab sb li am) ''furnishingstatus''
     = Inr (int_cell (furnishingstatus data))"
  "getitem (assembled scaled data ab sb li am) ''mainroad_yes''
     = Inr (int_cell (mainroad_yes data))"
  "getitem (assembled scaled data ab sb li am) ''guestroom_yes''
     = Inr (int_cell (guestroom_yes data))"
  "getitem (assembled scaled data ab sb li am) ''basement_yes''
     = Inr (int_cell (basement_yes data))"
  "getitem (assembled scaled data ab sb li am) ''hotwaterheating_yes''
     = Inr (int_cell (hotwaterheating_yes data))"
  "getitem (assembled scaled data ab sb li am) ''airconditioning_yes''
     = Inr (int_cell (airconditioning_yes data))"
  "getitem (assembled scaled data ab sb li am) ''prefarea_yes''
     = Inr (int_cell (prefarea_yes data))"
  by (simp_all add: assembled_def)

lemma getitem_assembled_derived:
  "getitem (assembled scaled data ab sb li am) ''area_bedrooms'' = Inr ab"
  "getitem (assembled scaled data ab sb li am) ''stories_bathrooms'' = Inr sb"
  "getitem (assembled scaled data ab sb li am) ''luxury_index'' = Inr li"
  "getitem (assembled scaled data ab sb li am) ''amenities_count'' = Inr am"
  by (simp_all add: assembled_def)

lemma full_house_int64: "int64_fields full_house"
  by (simp add: int64_fields_def int64_def full_house_def)

subsection \<open>The claims\<close>

text \<open>
  Claim C1. Whenever the handler hands a frame to the model, the frame has exactly 16
  cells, and position by position they are: the scaled area, then the record's bedrooms,
  bathrooms, stories, parking, furnishingstatus, mainroad_yes, guestroom_yes,
  basement_yes, hotwaterheating_yes, airconditioning_yes and prefarea_yes, then the
  computed area_bedrooms, stories_bathrooms, luxury_index and amenities_count, each
  under its own name; the rest of the \<^verbatim>\<open>try\<close> block is the model's call on that
  frame followed by the read of its first output. When the scaler returns and the
  integer fields fit in 64 signed bits, the frame is built, with the four derived cells
  in closed form.
\<close>

theorem feature_vector_layout:
  "(\<forall>df. build_features lib scaler data = Inr df \<longrightarrow>
      (\<exists>scaled ab sb li am.
         scaler (area data) = Inr scaled
         \<and> cell_mul lib (FloatV scaled) (int_cell (bedrooms data)) = Inr ab
         \<and> cell_mul lib (int_cell (stories data)) (int_cell (bathrooms data)) = Inr sb
         \<and> add4 lib (int_cell (airconditioning_yes data))
                     (int_cell (hotwaterheating_yes data))
                     (int_cell (guestroom_yes data))
                     (int_cell (basement_yes data)) = Inr li
         \<and> sum_axis1 lib (amenity_cells data) = Inr am
         \<and> df = [(''area'', FloatV scaled),
                  (''bedrooms'', int_cell (bedrooms data)),
                  (''bathrooms'', int_cell (bathrooms data)),
                  (''stories'', int_cell (stories data)),
                  (''parking'', int_cell (parking data)),
                  (''furnishingstatus'', int_cell (furnishingstatus data)),
                  (''mainroad_yes'', int_cell (mainroad_yes data)),
                  (''guestroom_yes'', int_cell (guestroom_yes data)),
                  (''basement_yes'', int_cell (basement_yes data)),
                  (''hotwaterheating_yes'', int_cell (hotwaterheating_yes data)),
                  (''airconditioning_yes'', int_cell (airconditioning_yes data)),
                  (''prefarea_yes'', int_cell (prefarea_yes data)),
                  (''area_bedrooms'', ab),
                  (''stories_bathrooms'', sb),
                  (''luxury_index'', li),
                  (''amenities_count'', am)]
         \<and> length df = 16
         \<and> predict_try lib scaler model data = exc_bind (model df) first_output))
   \<and> (\<forall>scaled. scaler (area data) = Inr scaled \<and> int64_fields data \<longrightarrow>
        build_features lib scaler data =
          Inr [(''area'', FloatV scaled),
               (''bedrooms'', IntV (bedrooms data)),
               (''bathrooms'', IntV (bathrooms data)),
               (''stories'', IntV (stories data)),
               (''parking'', IntV (parking data)),
               (''furnishingstatus'', IntV (furnishingstatus data)),
               (''mainroad_yes'', IntV (mainroad_yes data)),
               (''guestroom_yes'', IntV (guestroom_yes data)),
               (''basement_yes'', IntV (basement_yes data)),
               (''hotwaterheating_yes'', IntV (hotwaterheating_yes data)),
               (''airconditioning_yes'', IntV (airconditioning_yes data)),
               (''prefarea_yes'', IntV (prefarea_yes data)),
               (''area_bedrooms'',
                  FloatV (float_mul lib scaled (float_of_int lib (bedrooms data)))),
               (''stories_bathrooms'',
                  IntV (wrap64 (stories data * bathrooms data))),
               (''luxury_index'',
                  IntV (wrap64 (airconditioning_yes data + hotwaterheating_yes data
                                + guestroom_yes data + basement_yes data))),
               (''amenities_count'',
                  IntV (wrap64 (mainroad_yes data + guestroom_yes data
                                + basement_yes data + hotwaterheating_yes data
                                + airconditioning_yes data + prefarea_yes data)))])"
proof (intro conjI allI impI)
  fix df
  assume built: "build_features lib scaler data = Inr df"
  then obtain scaled ab sb am li where parts:
    "scaler (area data) = Inr scaled"
    "cell_mul lib (FloatV scaled) (int_cell (bedrooms data)) = Inr ab"
    "cell_mul lib (int_cell (stories data)) (int_cell (bathrooms data)) = Inr sb"
    "sum_axis1 lib (amenity_cells data) = Inr am"
    "add4 lib (int_cell (airconditioning_yes data))
              (int_cell (hotwaterheating_yes data))
              (int_cell (guestroom_yes data))
              (int_cell (basement_yes data)) = Inr li"
    and df: "df = assembled scaled data ab sb li am"
    by (rule build_features_InrD)
  have "predict_try lib scaler model data = exc_bind (model df) first_output"
    by (simp add: predict_try_def built)
  moreover have "length df = 16"
    by (simp add: df assembled_def)
  ultimately show "\<exists>scaled ab sb li am.
         scaler (area data) = Inr scaled
         \<and> cell_mul lib (FloatV scaled) (int_cell (bedrooms data)) = Inr ab
         \<and> cell_mul lib (int_cell (stories data)) (int_cell (bathrooms data)) = Inr sb
         \<and> add4 lib (int_cell (airconditioning_yes data))
                     (int_cell (hotwaterheating_yes data))
                     (int_cell (guestroom_yes data))
                     (int_cell (basement_yes data)) = Inr li
         \<and> sum_axis1 lib (amenity_cells data) = Inr am
         \<and> df = [(''area'', FloatV scaled),
                  (''bedrooms'', int_cell (bedrooms data)),
                  (''bathrooms'', int_cell (bathrooms data)),
                  (''stories'', int_cell (stories data)),
                  (''parking'', int_cell (parking data)),
                  (''furnishingstatus'', int_cell (furnishingstatus data)),
                  (''mainroad_yes'', int_cell (mainroad_yes data)),
                  (''guestroom_yes'', int_cell (guestroom_yes data)),
                  (''basement_yes'', int_cell (basement_yes data)),
                  (''hotwaterheating_yes'', int_cell (hotwaterheating_yes data)),
                  (''airconditioning_yes'', int_cell (airconditioning_yes data)),
                  (''prefarea_yes'', int_cell (prefarea_yes data)),
                  (''area_bedrooms'', ab),
                  (''stories_bathrooms'', sb),
                  (''luxury_index'', li),
                  (''amenities_count'', am)]
         \<and> length df = 16
         \<and> predict_try lib scaler model data = exc_bind (model df) first_output"
    using parts df unfolding assembled_def by blast
next
  fix scaled
  assume a: "scaler (area data) = Inr scaled \<and> int64_fields data"
  then have "int64_fields data" ..
  then have cells:
    "int_cell (bedrooms data) = IntV (bedrooms data)"
    "int_cell (bathrooms data) = IntV (bathrooms data)"
    "int_cell (stories data) = IntV (stories data)"
    "int_cell (parking data) = IntV (parking data)"
    "int_cell (furnishingstatus data) = IntV (furnishingstatus data)"
    "int_cell (mainroad_yes data) = IntV (mainroad_yes data)"
    "int_cell (guestroom_yes data) = IntV (guestroom_yes data)"
    "int_cell (basement_yes data) = IntV (basement_yes data)"
    "int_cell (hotwaterheating_yes data) = IntV (hotwaterheating_yes data)"
    "int_cell (airconditioning_yes data) = IntV (airconditioning_yes data)"
    "int_cell (prefarea_yes data) = IntV (prefarea_yes data)"
    by (simp_all add: int64_fields_def int_cell_int64)
  from a show "build_features lib scaler data =
          Inr [(''area'', FloatV scaled),
               (''bedrooms'', IntV (bedrooms data)),
               (''bathrooms'', IntV (bathrooms data)),
               (''stories'', IntV (stories data)),
               (''parking'', IntV (parking data)),
               (''furnishingstatus'', IntV (furnishingstatus data)),
               (''mainroad_yes'', IntV (mainroad_yes data)),
               (''guestroom_yes'', IntV (guestroom_yes data)),
               (''basement_yes'', IntV (basement_yes data)),
               (''hotwaterheating_yes'', IntV (hotwaterheating_yes data)),
               (''airconditioning_yes'', IntV (airconditioning_yes data)),
               (''prefarea_yes'', IntV (prefarea_yes data)),
               (''area_bedrooms'',
                  FloatV (float_mul lib scaled (float_of_int lib (bedrooms data)))),
               (''stories_bathrooms'',
                  IntV (wrap64 (stories data * bathrooms data))),
               (''luxury_index'',
                  IntV (wrap64 (airconditioning_yes data + hotwaterheating_yes data
                                + guestroom_yes data + basement_yes data))),
               (''amenities_count'',
                  IntV (wrap64 (mainroad_yes data + guestroom_yes data
                                + basement_yes data + hotwaterheating_yes data
                                + airconditioning_yes data + prefarea_yes data)))]"
    by (simp add: build_features_int64 assembled_def cells)
qed

theorem feature_vector_layout_witness:
  "build_features exact_lib per_thousand_scaler full_house =
     Inr [(''area'', FloatV 2), (''bedrooms'', IntV 4), (''bathrooms'', IntV 3),
          (''stories'', IntV 2), (''parking'', IntV 2),
          (''furnishingstatus'', IntV 2), (''mainroad_yes'', IntV 1),
          (''guestroom_yes'', IntV 1), (''basement_yes'', IntV 1),
          (''hotwaterheating_yes'', IntV 1), (''airconditioning_yes'', IntV 1),
          (''prefarea_yes'', IntV 1), (''area_bedrooms'', FloatV 8),
          (''stories_bathrooms'', IntV 6), (''luxury_index'', IntV 4),
          (''amenities_count'', IntV 6)]"
proof -
  have "per_thousand_scaler (area full_house) = Inr 2 \<and> int64_fields full_house"
    by (simp add: per_thousand_scaler_def full_house_int64) (simp add: full_house_def)
  with feature_vector_layout [of exact_lib per_thousand_scaler full_house sum_model]
  have "build_features exact_lib per_thousand_scaler full_house =
          Inr [(''area'', FloatV 2),
               (''bedrooms'', IntV (bedrooms full_house)),
               (''bathrooms'', IntV (bathrooms full_house)),
               (''stories'', IntV (stories full_house)),
               (''parking'', IntV (parking full_house)),
               (''furnishingstatus'', IntV (furnishingstatus full_house)),
               (''mainroad_yes'', IntV (mainroad_yes full_house)),
               (''guestroom_yes'', IntV (guestroom_yes full_house)),
               (''basement_yes'', IntV (basement_yes full_house)),
               (''hotwaterheating_yes'', IntV (hotwaterheating_yes full_house)),
               (''airconditioning_yes'', IntV (airconditioning_yes full_house)),
               (''prefarea_yes'', IntV (prefarea_yes full_house)),
               (''area_bedrooms'',
                  FloatV (float_mul exact_lib 2
                            (float_of_int exact_lib (bedrooms full_house)))),
               (''stories_bathrooms'',
                  IntV (wrap64 (stories full_house * bathrooms full_house))),
               (''luxury_index'',
                  IntV (wrap64 (airconditioning_yes full_house
                                + hotwaterheating_yes full_house
                                + guestroom_yes full_house
                                + basement_yes full_house))),
               (''amenities_count'',
                  IntV (wrap64 (mainroad_yes full_house + guestroom_yes full_house
                                + basement_yes full_house
                                + hotwaterheating_yes full_house
                                + airconditioning_yes full_house
                                + prefarea_yes full_house)))]"
    by blast
  then show ?thesis
    by (simp add: full_house_def exact_lib_def wrap64_def)
qed

text \<open>
  Claim C2. When the fields airconditioning_yes, hotwaterheating_yes,
  guestroom_yes and basement_yes fit in 64 signed bits, luxury_index is their sum
  reduced to the signed 64-bit range, hence the sum itself whenever the sum fits.
  Changing mainroad_yes and prefarea_yes of the record leaves luxury_index as it is, and
  a record with mainroad_yes = 1, prefarea_yes = 1 and the other four amenity fields 0
  has luxury_index 0.
\<close>

theorem luxury_index_four_fields:
  assumes "build_features lib scaler data = Inr df"
  shows "(int64 (airconditioning_yes data) \<and> int64 (hotwaterheating_yes data)
            \<and> int64 (guestroom_yes data) \<and> int64 (basement_yes data)
          \<longrightarrow> getitem df ''luxury_index''
                = Inr (IntV (wrap64 (airconditioning_yes data
                                     + hotwaterheating_yes data
                                     + guestroom_yes data + basement_yes data))))
       \<and> (int64 (airconditioning_yes data) \<and> int64 (hotwaterheating_yes data)
            \<and> int64 (guestroom_yes data) \<and> int64 (basement_yes data)
            \<and> int64 (airconditioning_yes data + hotwaterheating_yes data
                      + guestroom_yes data + basement_yes data)
          \<longrightarrow> getitem df ''luxury_index''
                = Inr (IntV (airconditioning_yes data + hotwaterheating_yes data
                             + guestroom_yes data + basement_yes data)))
       \<and> (\<forall>m p df'.
             build_features lib scaler (data\<lparr>mainroad_yes := m, prefarea_yes := p\<rparr>)
               = Inr df'
             \<longrightarrow> getitem df' ''luxury_index'' = getitem df ''luxury_index'')
       \<and> (mainroad_yes data = 1 \<and> prefarea_yes data = 1
            \<and> guestroom_yes data = 0 \<and> basement_yes data = 0
            \<and> hotwaterheating_yes data = 0 \<and> airconditioning_yes data = 0
          \<longrightarrow> getitem df ''luxury_index'' = Inr (IntV 0))"
proof -
  from assms obtain scaled ab sb am li where
    li: "add4 lib (int_cell (airconditioning_yes data))
              (int_cell (hotwaterheating_yes data))
              (int_cell (guestroom_yes data))
              (int_cell (basement_yes data)) = Inr li"
    and df: "df = assembled scaled data ab sb li am"
    by (rule build_features_InrD)
  have lux: "getitem df ''luxury_index'' = Inr li"
    by (simp add: df getitem_assembled_derived)
  have wrapped: "li = IntV (wrap64 (airconditioning_yes data
                                     + hotwaterheating_yes data
                                     + guestroom_yes data + basement_yes data))"
    if "int64 (airconditioning_yes data) \<and> int64 (hotwaterheating_yes data)
            \<and> int64 (guestroom_yes data) \<and> int64 (basement_yes data)"
    using li that by (simp add: int_cell_int64 add4_int64)
  have exact: "li = IntV (airconditioning_yes data + hotwaterheating_yes data
                             + guestroom_yes data + basement_yes data)"
    if "int64 (airconditioning_yes data) \<and> int64 (hotwaterheating_yes data)
            \<and> int64 (guestroom_yes data) \<and> int64 (basement_yes data)
            \<and> int64 (airconditioning_yes data + hotwaterheating_yes data
                      + guestroom_yes data + basement_yes data)"
    using wrapped that by (simp add: wrap64_id)
  have same: "getitem df' ''luxury_index'' = getitem df ''luxury_index''"
    if "build_features lib scaler (data\<lparr>mainroad_yes := m, prefarea_yes := p\<rparr>)
          = Inr df'"
    for m p df'
  proof -
    from that obtain scaled' ab' sb' am' li' where
      "add4 lib (int_cell (airconditioning_yes data))
              (int_cell (hotwaterheating_yes data))
              (int_cell (guestroom_yes data))
              (int_cell (basement_yes data)) = Inr li'"
      and "df' = assembled scaled' (data\<lparr>mainroad_yes := m, prefarea_yes := p\<rparr>)
                   ab' sb' li' am'"
      by (rule build_features_InrD) simp
    with li lux show ?thesis by (simp add: getitem_assembled_derived)
  qed
  have zero: "li = IntV 0"
    if "mainroad_yes data = 1 \<and> prefarea_yes data = 1
            \<and> guestroom_yes data = 0 \<and> basement_yes data = 0
            \<and> hotwaterheating_yes data = 0 \<and> airconditioning_yes data = 0"
    using li that by (simp add: int_cell_def int64_def add4_int64 wrap64_def)
  from wrapped exact same zero show ?thesis
    unfolding lux by blast
qed

theorem luxury_index_four_fields_witness:
  "\<exists>df df'. build_features exact_lib identity_scaler roadside_house = Inr df
      \<and> getitem df ''luxury_index'' = Inr (IntV 0)
      \<and> build_features exact_lib identity_scaler
            (roadside_house\<lparr>mainroad_yes := 0, prefarea_yes := 0\<rparr>) = Inr df'
      \<and> getitem df' ''luxury_index'' = Inr (IntV 0)"
proof -
  let ?plain = "roadside_house\<lparr>mainroad_yes := 0, prefarea_yes := 0\<rparr>"
  obtain df where built: "build_features exact_lib identity_scaler roadside_house
                 = Inr df"
    using build_features_int64 [of identity_scaler roadside_house 1500 exact_lib]
    by (simp add: identity_scaler_def int64_fields_def int64_def roadside_house_def)
  obtain df' where plain: "build_features exact_lib identity_scaler ?plain = Inr df'"
    using build_features_int64 [of identity_scaler ?plain 1500 exact_lib]
    by (simp add: identity_scaler_def int64_fields_def int64_def roadside_house_def)
  note lux = luxury_index_four_fields [OF built]
  have zero: "getitem df ''luxury_index'' = Inr (IntV 0)"
    using lux by (simp add: roadside_house_def)
  have "getitem df' ''luxury_index'' = getitem df ''luxury_index''"
    using lux plain by blast
  with zero built plain show ?thesis by auto
qed

text \<open>
  Without the reduction the property fails: at airconditioning_yes =
  hotwaterheating_yes = 2 ^ 62 the four fields add up to 2 ^ 63 and the column holds
  - 2 ^ 63.
\<close>

theorem luxury_index_four_fields_counterexample:
  "feature exact_lib identity_scaler boiler_house ''luxury_index''
     = Inr (IntV (- (2 ^ 63)))
   \<and> airconditioning_yes boiler_house + hotwaterheating_yes boiler_house
       + guestroom_yes boiler_house + basement_yes boiler_house = 2 ^ 63
   \<and> feature exact_lib identity_scaler boiler_house ''luxury_index''
       \<noteq> Inr (IntV (airconditioning_yes boiler_house
                       + hotwaterheating_yes boiler_house
                       + guestroom_yes boiler_house + basement_yes boiler_house))"
proof -
  have "build_features exact_lib identity_scaler boiler_house
          = Inr (assembled 1000 boiler_house
                   (FloatV (float_mul exact_lib 1000
                      (float_of_int exact_lib (bedrooms boiler_house))))
                   (IntV (wrap64 (stories boiler_house * bathrooms boiler_house)))
                   (IntV (wrap64 (airconditioning_yes boiler_house
                                  + hotwaterheating_yes boiler_house
                                  + guestroom_yes boiler_house
                                  + basement_yes boiler_house)))
                   (IntV (wrap64 (mainroad_yes boiler_house
                                  + guestroom_yes boiler_house
                                  + basement_yes boiler_house
                                  + hotwaterheating_yes boiler_house
                                  + airconditioning_yes boiler_house
                                  + prefarea_yes boiler_house))))"
    by (rule build_features_int64)
       (simp_all add: identity_scaler_def int64_fields_def int64_def boiler_house_def)
  then have "feature exact_lib identity_scaler boiler_house ''luxury_index''
          = Inr (IntV (wrap64 (airconditioning_yes boiler_house
                                  + hotwaterheating_yes boiler_house
                                  + guestroom_yes boiler_house
                                  + basement_yes boiler_house)))"
    by (simp add: feature_def getitem_assembled_derived)
  then show ?thesis
    by (simp add: boiler_house_def wrap64_def)
qed

text \<open>
  Claim C3. When the six amenity fields fit in 64 signed bits,
  amenities_count is their sum reduced to the signed 64-bit range, hence the sum itself
  whenever the sum fits.
\<close>

theorem amenities_count_six_fields:
  assumes "build_features lib scaler data = Inr df"
    and "int64 (mainroad_yes data)" and "int64 (guestroom_yes data)"
    and "int64 (basement_yes data)" and "int64 (hotwaterheating_yes data)"
    and "int64 (airconditioning_yes data)" and "int64 (prefarea_yes data)"
  shows "getitem df ''amenities_count''
           = Inr (IntV (wrap64 (mainroad_yes data + guestroom_yes data
                                + basement_yes data + hotwaterheating_yes data
                                + airconditioning_yes data + prefarea_yes data)))
       \<and> (int64 (mainroad_yes data + guestroom_yes data + basement_yes data
                  + hotwaterheating_yes data + airconditioning_yes data
                  + prefarea_yes data)
          \<longrightarrow> getitem df ''amenities_count''
                = Inr (IntV (mainroad_yes data + guestroom_yes data
                             + basement_yes data + hotwaterheating_yes data
                             + airconditioning_yes data + prefarea_yes data)))"
proof -
  from assms(1) obtain scaled ab sb am li where
    am: "sum_axis1 lib (amenity_cells data) = Inr am"
    and df: "df = assembled scaled data ab sb li am"
    by (rule build_features_InrD)
  from am sum_axis1_int64 [OF assms(2-7), of lib]
  have "am = IntV (wrap64 (mainroad_yes data + guestroom_yes data
                                + basement_yes data + hotwaterheating_yes data
                                + airconditioning_yes data + prefarea_yes data))"
    by simp
  then show ?thesis
    by (simp add: df getitem_assembled_derived wrap64_id)
qed

theorem amenities_count_six_fields_witness:
  "\<exists>df. build_features exact_lib per_thousand_scaler full_house = Inr df
      \<and> getitem df ''amenities_count'' = Inr (IntV 6)"
proof -
  obtain df where built: "build_features exact_lib per_thousand_scaler full_house
                 = Inr df"
    using build_features_int64 [of per_thousand_scaler full_house 2 exact_lib]
    by (simp add: per_thousand_scaler_def full_house_int64) (simp add: full_house_def)
  have "getitem df ''amenities_count'' = Inr (IntV 6)"
    using amenities_count_six_fields [OF built]
    by (simp add: full_house_def int64_def wrap64_def)
  with built show ?thesis by blast
qed

text \<open>
  Without the reduction the property fails: at mainroad_yes = prefarea_yes =
  2 ^ 62 the six fields add up to 2 ^ 63 and the column holds - 2 ^ 63.
\<close>

theorem amenities_count_six_fields_counterexample:
  "feature exact_lib identity_scaler corner_house ''amenities_count''
     = Inr (IntV (- (2 ^ 63)))
   \<and> mainroad_yes corner_house + guestroom_yes corner_house
       + basement_yes corner_house + hotwaterheating_yes corner_house
       + airconditioning_yes corner_house + prefarea_yes corner_house = 2 ^ 63
   \<and> feature exact_lib identity_scaler corner_house ''amenities_count''
       \<noteq> Inr (IntV (mainroad_yes corner_house + guestroom_yes corner_house
                       + basement_yes corner_house + hotwaterheating_yes corner_house
                       + airconditioning_yes corner_house
                       + prefarea_yes corner_house))"
proof -
  have "build_features exact_lib identity_scaler corner_house
          = Inr (assembled 1000 corner_house
                   (FloatV (float_mul exact_lib 1000
                      (float_of_int exact_lib (bedrooms corner_house))))
                   (IntV (wrap64 (stories corner_house * bathrooms corner_house)))
                   (IntV (wrap64 (airconditioning_yes corner_house
                                  + hotwaterheating_yes corner_house
                                  + guestroom_yes corner_house
                                  + basement_yes corner_house)))
                   (IntV (wrap64 (mainroad_yes corner_house
                                  + guestroom_yes corner_house
                                  + basement_yes corner_house
                                  + hotwaterheating_yes corner_house
                                  + airconditioning_yes corner_house
                                  + prefarea_yes corner_house))))"
    by (rule build_features_int64)
       (simp_all add: identity_scaler_def int64_fields_def int64_def corner_house_def)
  then have "feature exact_lib identity_scaler corner_house ''amenities_count''
          = Inr (IntV (wrap64 (mainroad_yes corner_house
                                  + guestroom_yes corner_house
                                  + basement_yes corner_house
                                  + hotwaterheating_yes corner_house
                                  + airconditioning_yes corner_house
                                  + prefarea_yes corner_house)))"
    by (simp add: feature_def getitem_assembled_derived)
  then show ?thesis
    by (simp add: corner_house_def wrap64_def)
qed

text \<open>
  Claim C4. area_bedrooms is the library's float product of the scaled area
  (what the scaler returned for the record's area) and bedrooms converted to a float;
  stories_bathrooms is the product of stories and bathrooms reduced to the signed 64-bit
  range, hence the product itself whenever the product fits. Both for fields that fit in
  64 signed bits, zero included.
\<close>

theorem interaction_features:
  assumes "build_features lib scaler data = Inr df"
  shows "\<exists>scaled. scaler (area data) = Inr scaled
           \<and> (int64 (bedrooms data)
              \<longrightarrow> getitem df ''area_bedrooms''
                    = Inr (FloatV (float_mul lib scaled
                                     (float_of_int lib (bedrooms data)))))
           \<and> (int64 (stories data) \<and> int64 (bathrooms data)
              \<longrightarrow> getitem df ''stories_bathrooms''
                    = Inr (IntV (wrap64 (stories data * bathrooms data))))
           \<and> (int64 (stories data) \<and> int64 (bathrooms data)
                \<and> int64 (stories data * bathrooms data)
              \<longrightarrow> getitem df ''stories_bathrooms''
                    = Inr (IntV (stories data * bathrooms data)))"
proof -
  from assms obtain scaled ab sb am li where
    scaled: "scaler (area data) = Inr scaled"
    and ab: "cell_mul lib (FloatV scaled) (int_cell (bedrooms data)) = Inr ab"
    and sb: "cell_mul lib (int_cell (stories data)) (int_cell (bathrooms data))
               = Inr sb"
    and df: "df = assembled scaled data ab sb li am"
    by (rule build_features_InrD)
  have "ab = FloatV (float_mul lib scaled (float_of_int lib (bedrooms data)))"
    if "int64 (bedrooms data)"
    using ab that by (simp add: int_cell_int64)
  moreover have wrapped: "sb = IntV (wrap64 (stories data * bathrooms data))"
    if "int64 (stories data) \<and> int64 (bathrooms data)"
    using sb that by (simp add: int_cell_int64)
  moreover have "sb = IntV (stories data * bathrooms data)"
    if "int64 (stories data) \<and> int64 (bathrooms data)
          \<and> int64 (stories data * bathrooms data)"
    using wrapped that by (simp add: wrap64_id)
  ultimately show ?thesis
    using scaled by (simp add: df getitem_assembled_derived)
qed

theorem interaction_features_witness:
  "\<exists>df. build_features exact_lib per_thousand_scaler full_house = Inr df
      \<and> getitem df ''area_bedrooms'' = Inr (FloatV 8)
      \<and> getitem df ''stories_bathrooms'' = Inr (IntV 6)"
proof -
  obtain df where built: "build_features exact_lib per_thousand_scaler full_house
                 = Inr df"
    using build_features_int64 [of per_thousand_scaler full_house 2 exact_lib]
    by (simp add: per_thousand_scaler_def full_house_int64) (simp add: full_house_def)
  have "getitem df ''area_bedrooms'' = Inr (FloatV 8)
      \<and> getitem df ''stories_bathrooms'' = Inr (IntV 6)"
    using interaction_features [OF built]
    by (simp add: per_thousand_scaler_def full_house_def exact_lib_def int64_def
        wrap64_def)
  with built show ?thesis by blast
qed

text \<open>
  Without the reduction the property fails: at stories = bathrooms = 2 ^ 32 the
  product is 2 ^ 64 and the column holds 0.
\<close>

theorem interaction_features_counterexample:
  "feature exact_lib identity_scaler tower_house ''stories_bathrooms''
     = Inr (IntV 0)
   \<and> stories tower_house * bathrooms tower_house = 2 ^ 64
   \<and> feature exact_lib identity_scaler tower_house ''stories_bathrooms''
       \<noteq> Inr (IntV (stories tower_house * bathrooms tower_house))"
proof -
  have "build_features exact_lib identity_scaler tower_house
          = Inr (assembled 1000 tower_house
                   (FloatV (float_mul exact_lib 1000
                      (float_of_int exact_lib (bedrooms tower_house))))
                   (IntV (wrap64 (stories tower_house * bathrooms tower_house)))
                   (IntV (wrap64 (airconditioning_yes tower_house
                                  + hotwaterheating_yes tower_house
                                  + guestroom_yes tower_house
                                  + basement_yes tower_house)))
                   (IntV (wrap64 (mainroad_yes tower_house
                                  + guestroom_yes tower_house
                                  + basement_yes tower_house
                                  + hotwaterheating_yes tower_house
                                  + airconditioning_yes tower_house
                                  + prefarea_yes tower_house))))"
    by (rule build_features_int64)
       (simp_all add: identity_scaler_def int64_fields_def int64_def tower_house_def)
  then have "feature exact_lib identity_scaler tower_house ''stories_bathrooms''
          = Inr (IntV (wrap64 (stories tower_house * bathrooms tower_house)))"
    by (simp add: feature_def getitem_assembled_derived)
  then show ?thesis
    by (simp add: tower_house_def wrap64_def)
qed

text \<open>
  Claim C5. The area column of the assembled frame is the scaler's result on the raw
  area, a single application; the other eleven raw columns carry the record's values
  unchanged; and under the identity scaler the area column is the raw area.
\<close>

theorem scaling_only_area:
  assumes "build_features lib scaler data = Inr df"
  shows "(\<exists>scaled. scaler (area data) = Inr scaled
            \<and> getitem df ''area'' = Inr (FloatV scaled))
       \<and> getitem df ''bedrooms'' = Inr (int_cell (bedrooms data))
       \<and> getitem df ''bathrooms'' = Inr (int_cell (bathrooms data))
       \<and> getitem df ''stories'' = Inr (int_cell (stories data))
       \<and> getitem df ''parking'' = Inr (int_cell (parking data))
       \<and> getitem df ''furnishingstatus'' = Inr (int_cell (furnishingstatus data))
       \<and> getitem df ''mainroad_yes'' = Inr (int_cell (mainroad_yes data))
       \<and> getitem df ''guestroom_yes'' = Inr (int_cell (guestroom_yes data))
       \<and> getitem df ''basement_yes'' = Inr (int_cell (basement_yes data))
       \<and> getitem df ''hotwaterheating_yes''
           = Inr (int_cell (hotwaterheating_yes data))
       \<and> getitem df ''airconditioning_yes''
           = Inr (int_cell (airconditioning_yes data))
       \<and> getitem df ''prefarea_yes'' = Inr (int_cell (prefarea_yes data))
       \<and> (\<forall>df0. build_features lib identity_scaler data = Inr df0
             \<longrightarrow> getitem df0 ''area'' = Inr (FloatV (area data)))
       \<and> (int64_fields data
          \<longrightarrow> (\<exists>df0. build_features lib identity_scaler data = Inr df0
                  \<and> getitem df0 ''area'' = Inr (FloatV (area data))))"
proof -
  from assms obtain scaled ab sb am li where
    "scaler (area data) = Inr scaled"
    and "df = assembled scaled data ab sb li am"
    by (rule build_features_InrD)
  then have raw: "(\<exists>scaled. scaler (area data) = Inr scaled
            \<and> getitem df ''area'' = Inr (FloatV scaled))
       \<and> getitem df ''bedrooms'' = Inr (int_cell (bedrooms data))
       \<and> getitem df ''bathrooms'' = Inr (int_cell (bathrooms data))
       \<and> getitem df ''stories'' = Inr (int_cell (stories data))
       \<and> getitem df ''parking'' = Inr (int_cell (parking data))
       \<and> getitem df ''furnishingstatus'' = Inr (int_cell (furnishingstatus data))
       \<and> getitem df ''mainroad_yes'' = Inr (int_cell (mainroad_yes data))
       \<and> getitem df ''guestroom_yes'' = Inr (int_cell (guestroom_yes data))
       \<and> getitem df ''basement_yes'' = Inr (int_cell (basement_yes data))
       \<and> getitem df ''hotwaterheating_yes''
           = Inr (int_cell (hotwaterheating_yes data))
       \<and> getitem df ''airconditioning_yes''
           = Inr (int_cell (airconditioning_yes data))
       \<and> getitem df ''prefarea_yes'' = Inr (int_cell (prefarea_yes data))"
    by (simp add: getitem_assembled)
  have ident: "getitem df0 ''area'' = Inr (FloatV (area data))"
    if "build_features lib identity_scaler data = Inr df0" for df0
  proof -
    from that obtain scaled0 ab0 sb0 am0 li0 where
      "identity_scaler (area data) = Inr scaled0"
      and "df0 = assembled scaled0 data ab0 sb0 li0 am0"
      by (rule build_features_InrD)
    then show ?thesis by (simp add: identity_scaler_def getitem_assembled)
  qed
  have "\<exists>df0. build_features lib identity_scaler data = Inr df0
                  \<and> getitem df0 ''area'' = Inr (FloatV (area data))"
    if "int64_fields data"
  proof -
    have "identity_scaler (area data) = Inr (area data)"
      by (simp add: identity_scaler_def)
    with that build_features_int64 [of identity_scaler data "area data" lib]
    obtain df0 where "build_features lib identity_scaler data = Inr df0" by blast
    with ident show ?thesis by blast
  qed
  with raw ident show ?thesis by blast
qed

theorem scaling_only_area_witness:
  "\<exists>df. build_features exact_lib per_thousand_scaler full_house = Inr df
      \<and> getitem df ''area'' = Inr (FloatV 2)
      \<and> getitem df ''bedrooms'' = Inr (IntV 4)
      \<and> getitem df ''bathrooms'' = Inr (IntV 3)
      \<and> getitem df ''stories'' = Inr (IntV 2)
      \<and> getitem df ''parking'' = Inr (IntV 2)
      \<and> getitem df ''furnishingstatus'' = Inr (IntV 2)
      \<and> getitem df ''prefarea_yes'' = Inr (IntV 1)"
proof -
  obtain df where built: "build_features exact_lib per_thousand_scaler full_house
                 = Inr df"
    using build_features_int64 [of per_thousand_scaler full_house 2 exact_lib]
    by (simp add: per_thousand_scaler_def full_house_int64) (simp add: full_house_def)
  have "getitem df ''area'' = Inr (FloatV 2)
      \<and> getitem df ''bedrooms'' = Inr (IntV 4)
      \<and> getitem df ''bathrooms'' = Inr (IntV 3)
      \<and> getitem df ''stories'' = Inr (IntV 2)
      \<and> getitem df ''parking'' = Inr (IntV 2)
      \<and> getitem df ''furnishingstatus'' = Inr (IntV 2)
      \<and> getitem df ''prefarea_yes'' = Inr (IntV 1)"
    using scaling_only_area [OF built]
    by (simp add: per_thousand_scaler_def full_house_def int_cell_def int64_def)
  with built show ?thesis by blast
qed

text \<open>
  Claim C6. With the identity scaler and the summing model, the sample record is
  assembled into the values 1000, 2, 1, 1, 1, 1, 1, 0, 0, 0, 1, 0, 2000, 1, 1, 2 and
  the handler returns the prediction 3012.
\<close>

theorem sample_house_prediction:
  "build_features exact_lib identity_scaler sample_house =
     Inr [(''area'', FloatV 1000), (''bedrooms'', IntV 2), (''bathrooms'', IntV 1),
          (''stories'', IntV 1), (''parking'', IntV 1),
          (''furnishingstatus'', IntV 1), (''mainroad_yes'', IntV 1),
          (''guestroom_yes'', IntV 0), (''basement_yes'', IntV 0),
          (''hotwaterheating_yes'', IntV 0), (''airconditioning_yes'', IntV 1),
          (''prefarea_yes'', IntV 0), (''area_bedrooms'', FloatV 2000),
          (''stories_bathrooms'', IntV 1), (''luxury_index'', IntV 1),
          (''amenities_count'', IntV 2)]
   \<and> map_sum id values_of (build_features exact_lib identity_scaler sample_house)
       = Inr [1000, 2, 1, 1, 1, 1, 1, 0, 0, 0, 1, 0, 2000, 1, 1, 2]
   \<and> predict exact_lib identity_scaler sum_model sample_house
       = [(''prediction'', JFloat 3012)]"
proof -
  have fits: "int64_fields sample_house"
    by (simp add: int64_fields_def int64_def sample_house_def)
  have "identity_scaler (area sample_house) = Inr 1000"
    by (simp add: identity_scaler_def sample_house_def)
  with fits build_features_int64 [of identity_scaler sample_house 1000 exact_lib]
  have built: "build_features exact_lib identity_scaler sample_house =
     Inr [(''area'', FloatV 1000), (''bedrooms'', IntV 2), (''bathrooms'', IntV 1),
          (''stories'', IntV 1), (''parking'', IntV 1),
          (''furnishingstatus'', IntV 1), (''mainroad_yes'', IntV 1),
          (''guestroom_yes'', IntV 0), (''basement_yes'', IntV 0),
          (''hotwaterheating_yes'', IntV 0), (''airconditioning_yes'', IntV 1),
          (''prefarea_yes'', IntV 0), (''area_bedrooms'', FloatV 2000),
          (''stories_bathrooms'', IntV 1), (''luxury_index'', IntV 1),
          (''amenities_count'', IntV 2)]"
    by (simp add: assembled_def sample_house_def exact_lib_def wrap64_def
        int_cell_def int64_def)
  have vals: "values_of
     [(''area'', FloatV 1000), (''bedrooms'', IntV 2), (''bathrooms'', IntV 1),
          (''stories'', IntV 1), (''parking'', IntV 1),
          (''furnishingstatus'', IntV 1), (''mainroad_yes'', IntV 1),
          (''guestroom_yes'', IntV 0), (''basement_yes'', IntV 0),
          (''hotwaterheating_yes'', IntV 0), (''airconditioning_yes'', IntV 1),
          (''prefarea_yes'', IntV 0), (''area_bedrooms'', FloatV 2000),
          (''stories_bathrooms'', IntV 1), (''luxury_index'', IntV 1),
          (''amenities_count'', IntV 2)]
       = [1000, 2, 1, 1, 1, 1, 1, 0, 0, 0, 1, 0, 2000, 1, 1, 2]"
    by (simp add: values_of_def exact_lib_def)
  have "predict exact_lib identity_scaler sum_model sample_house
          = [(''prediction'', JFloat 3012)]"
    by (simp add: predict_def predict_try_def built sum_model_def vals)
  with built vals show ?thesis by simp
qed

text \<open>
  Claim C7. An exception raised by the scaler, while the features are derived and the
  frame is assembled, by the model, or when the model's first output is read, makes the
  handler return the payload with the single key error and the exception's text; the
  handler always returns a prediction payload or an error payload.
\<close>

theorem failures_become_error_payload:
  "(\<forall>e. scaler (area data) = Inl e
        \<longrightarrow> predict lib scaler model data = [(''error'', JString (str e))])
   \<and> (\<forall>e. build_features lib scaler data = Inl e
        \<longrightarrow> predict lib scaler model data = [(''error'', JString (str e))])
   \<and> (\<forall>df e. build_features lib scaler data = Inr df \<and> model df = Inl e
        \<longrightarrow> predict lib scaler model data = [(''error'', JString (str e))])
   \<and> (\<forall>df pred e. build_features lib scaler data = Inr df \<and> model df = Inr pred
                    \<and> first_output pred = Inl e
        \<longrightarrow> predict lib scaler model data = [(''error'', JString (str e))])
   \<and> (\<forall>e. predict_try lib scaler model data = Inl e
        \<longrightarrow> predict lib scaler model data = [(''error'', JString (str e))])
   \<and> ((\<exists>p. predict lib scaler model data = [(''prediction'', JFloat p)])
        \<or> (\<exists>msg. predict lib scaler model data = [(''error'', JString msg)]))"
proof -
  have "predict lib scaler model data = [(''error'', JString (str e))]"
    if "scaler (area data) = Inl e" for e
    using that by (simp add: predict_def predict_try_def build_features_raised)
  moreover have "predict lib scaler model data = [(''error'', JString (str e))]"
    if "build_features lib scaler data = Inl e" for e
    using that by (simp add: predict_def predict_try_def)
  moreover have "predict lib scaler model data = [(''error'', JString (str e))]"
    if "build_features lib scaler data = Inr df \<and> model df = Inl e" for df e
    using that by (simp add: predict_def predict_try_def)
  moreover have "predict lib scaler model data = [(''error'', JString (str e))]"
    if "build_features lib scaler data = Inr df \<and> model df = Inr pred
        \<and> first_output pred = Inl e" for df pred e
    using that by (simp add: predict_def predict_try_def)
  moreover have "predict lib scaler model data = [(''error'', JString (str e))]"
    if "predict_try lib scaler model data = Inl e" for e
    using that by (simp add: predict_def)
  moreover have "(\<exists>p. predict lib scaler model data = [(''prediction'', JFloat p)])
        \<or> (\<exists>msg. predict lib scaler model data = [(''error'', JString msg)])"
    by (cases "predict_try lib scaler model data") (simp_all add: predict_def)
  ultimately show ?thesis by blast
qed

theorem failures_become_error_payload_witness:
  "predict exact_lib failing_scaler sum_model sample_house
     = [(''error'', JString ''could not convert string to float'')]
   \<and> predict exact_lib identity_scaler failing_model sample_house
     = [(''error'', JString ''X has 16 features, but the model expects 12'')]
   \<and> predict exact_lib identity_scaler silent_model sample_house
     = [(''error'', JString ''index 0 is out of bounds for axis 0 with size 0'')]"
proof -
  obtain df where built:
    "build_features exact_lib identity_scaler sample_house = Inr df"
    using build_features_int64 [of identity_scaler sample_house 1000 exact_lib]
    by (simp add: identity_scaler_def int64_fields_def int64_def sample_house_def)
  have "predict exact_lib failing_scaler sum_model sample_house
     = [(''error'', JString ''could not convert string to float'')]"
    using failures_become_error_payload
            [of failing_scaler sample_house exact_lib sum_model]
    by (simp add: failing_scaler_def)
  moreover have "predict exact_lib identity_scaler failing_model sample_house
     = [(''error'', JString ''X has 16 features, but the model expects 12'')]"
    using failures_become_error_payload
            [of identity_scaler sample_house exact_lib failing_model]
    by (simp add: built failing_model_def)
  moreover have "predict exact_lib identity_scaler silent_model sample_house
     = [(''error'', JString ''index 0 is out of bounds for axis 0 with size 0'')]"
    using failures_become_error_payload
            [of identity_scaler sample_house exact_lib silent_model]
    by (simp add: built silent_model_def)
  ultimately show ?thesis by simp
qed

text \<open>
  Claim C8. The handler returns the single-key payload with key prediction and value v
  exactly when the frame was assembled, with its 16 columns in feature order, and the
  model's call on it returned a result whose first output is v.
\<close>

theorem success_payload:
  "predict lib scaler model data = [(''prediction'', JFloat v)]
     \<longleftrightarrow> (\<exists>df rest. build_features lib scaler data = Inr df \<and> length df = 16
                     \<and> columns df = feature_order
                     \<and> model df = Inr (v # rest))"
proof
  assume ok: "predict lib scaler model data = [(''prediction'', JFloat v)]"
  then have body: "predict_try lib scaler model data = Inr v"
    by (simp add: predict_def split: sum.splits)
  then obtain df where built: "build_features lib scaler data = Inr df"
    by (cases "build_features lib scaler data") (simp_all add: predict_try_def)
  with body obtain pred where out: "model df = Inr pred"
    by (cases "model df") (simp_all add: predict_try_def)
  with body built have "first_output pred = Inr v"
    by (simp add: predict_try_def)
  then obtain rest where "pred = v # rest"
    by (cases pred) simp_all
  moreover from built obtain scaled ab sb am li where
    "df = assembled scaled data ab sb li am"
    by (rule build_features_InrD)
  then have "length df = 16 \<and> columns df = feature_order"
    by (simp add: assembled_def columns_def feature_order_def)
  ultimately show "\<exists>df rest. build_features lib scaler data = Inr df
                     \<and> length df = 16
                     \<and> columns df = feature_order
                     \<and> model df = Inr (v # rest)"
    using built out by blast
next
  assume "\<exists>df rest. build_features lib scaler data = Inr df \<and> length df = 16
                     \<and> columns df = feature_order
                     \<and> model df = Inr (v # rest)"
  then show "predict lib scaler model data = [(''prediction'', JFloat v)]"
    by (auto simp: predict_def predict_try_def)
qed

theorem success_payload_witness:
  "predict exact_lib per_thousand_scaler sum_model full_house
     = [(''prediction'', JFloat 45)]"
proof -
  have "per_thousand_scaler (area full_house) = Inr 2"
    by (simp add: per_thousand_scaler_def full_house_def)
  with full_house_int64
    build_features_int64 [of per_thousand_scaler full_house 2 exact_lib]
  have built: "build_features exact_lib per_thousand_scaler full_house =
     Inr [(''area'', FloatV 2), (''bedrooms'', IntV 4), (''bathrooms'', IntV 3),
          (''stories'', IntV 2), (''parking'', IntV 2),
          (''furnishingstatus'', IntV 2), (''mainroad_yes'', IntV 1),
          (''guestroom_yes'', IntV 1), (''basement_yes'', IntV 1),
          (''hotwaterheating_yes'', IntV 1), (''airconditioning_yes'', IntV 1),
          (''prefarea_yes'', IntV 1), (''area_bedrooms'', FloatV 8),
          (''stories_bathrooms'', IntV 6), (''luxury_index'', IntV 4),
          (''amenities_count'', IntV 6)]" (is "_ = Inr ?frame")
    by (simp add: assembled_def full_house_def exact_lib_def wrap64_def
        int_cell_def int64_def)
  have "length ?frame = 16 \<and> columns ?frame = feature_order"
    by (simp add: columns_def feature_order_def)
  moreover have "sum_model ?frame = Inr [45]"
    by (simp add: sum_model_def values_of_def exact_lib_def)
  ultimately show ?thesis
    using built
      success_payload [of exact_lib per_thousand_scaler sum_model full_house 45]
    by blast
qed

text \<open>
  Claim C9. If loading the model file raises, or the model loads and loading the scaler
  file raises, the module's start ends in a RuntimeError that carries the cause, and no
  module state (no artifact, no route) exists; a module state exists only when both
  loads returned, and then it holds exactly what they returned.
\<close>

theorem startup_fails_fast:
  "(\<forall>e. joblib_load ''model.pkl'' = Inl e
        \<longrightarrow> module_init joblib_load
              = Inl (RuntimeError (''Error loading model or scaler: '' @ str e)))
   \<and> (\<forall>m e. joblib_load ''model.pkl'' = Inr m \<and> joblib_load ''scaler.pkl'' = Inl e
        \<longrightarrow> module_init joblib_load
              = Inl (RuntimeError (''Error loading model or scaler: '' @ str e)))
   \<and> (\<forall>st. module_init joblib_load = Inr st
        \<longrightarrow> joblib_load ''model.pkl'' = Inr (loaded_model st)
            \<and> joblib_load ''scaler.pkl'' = Inr (loaded_scaler st)
            \<and> routes st = [''/predict''])"
proof -
  have "module_init joblib_load
          = Inl (RuntimeError (''Error loading model or scaler: '' @ str e))"
    if "joblib_load ''model.pkl'' = Inl e" for e
    using that by (simp add: module_init_def load_artifacts_def)
  moreover have "module_init joblib_load
          = Inl (RuntimeError (''Error loading model or scaler: '' @ str e))"
    if "joblib_load ''model.pkl'' = Inr m \<and> joblib_load ''scaler.pkl'' = Inl e"
    for m e
    using that by (simp add: module_init_def load_artifacts_def)
  moreover have "joblib_load ''model.pkl'' = Inr (loaded_model st)
            \<and> joblib_load ''scaler.pkl'' = Inr (loaded_scaler st)
            \<and> routes st = [''/predict'']"
    if "module_init joblib_load = Inr st" for st
  proof (cases "joblib_load ''model.pkl''")
    case (Inl e)
    with that show ?thesis by (simp add: module_init_def load_artifacts_def)
  next
    case m: (Inr m)
    show ?thesis
    proof (cases "joblib_load ''scaler.pkl''")
      case (Inl e)
      with that m show ?thesis by (simp add: module_init_def load_artifacts_def)
    next
      case (Inr s)
      with that m show ?thesis
        by (auto simp: module_init_def load_artifacts_def)
    qed
  qed
  ultimately show ?thesis by blast
qed

theorem startup_fails_fast_witness:
  "module_init missing_model_load
     = Inl (RuntimeError
              ''Error loading model or scaler: No such file or directory'')
   \<and> module_init missing_scaler_load
     = Inl (RuntimeError
              ''Error loading model or scaler: No such file or directory'')
   \<and> module_init both_present_load
     = Inr \<lparr>loaded_model = 7, loaded_scaler = 9, routes = [''/predict'']\<rparr>"
proof -
  have "module_init missing_model_load
     = Inl (RuntimeError
              ''Error loading model or scaler: No such file or directory'')"
    using startup_fails_fast [of missing_model_load]
    by (simp add: missing_model_load_def)
  moreover have "module_init missing_scaler_load
     = Inl (RuntimeError
              ''Error loading model or scaler: No such file or directory'')"
    using startup_fails_fast [of missing_scaler_load]
    by (simp add: missing_scaler_load_def)
  moreover have "module_init both_present_load
     = Inr \<lparr>loaded_model = 7, loaded_scaler = 9, routes = [''/predict'']\<rparr>"
  proof -
    obtain st where st: "module_init both_present_load = Inr st"
      by (simp add: module_init_def load_artifacts_def both_present_load_def)
    with startup_fails_fast [of both_present_load]
    have "loaded_model st = 7 \<and> loaded_scaler st = 9 \<and> routes st = [''/predict'']"
      by (simp add: both_present_load_def)
    then have "st = \<lparr>loaded_model = 7, loaded_scaler = 9, routes = [''/predict'']\<rparr>"
      by (cases st) simp
    with st show ?thesis by simp
  qed
  ultimately show ?thesis by simp
qed

text \<open>
  Claim C10. When the six amenity fields fit in 64 signed bits,
  amenities_count is luxury_index + mainroad_yes + prefarea_yes reduced to the signed
  64-bit range, hence equal to luxury_index + mainroad_yes + prefarea_yes whenever that
  sum fits.
\<close>

theorem amenities_exceed_luxury:
  assumes "build_features lib scaler data = Inr df"
    and "int64 (mainroad_yes data)" and "int64 (guestroom_yes data)"
    and "int64 (basement_yes data)" and "int64 (hotwaterheating_yes data)"
    and "int64 (airconditioning_yes data)" and "int64 (prefarea_yes data)"
  shows "\<exists>count index. getitem df ''amenities_count'' = Inr (IntV count)
           \<and> getitem df ''luxury_index'' = Inr (IntV index)
           \<and> count = wrap64 (index + mainroad_yes data + prefarea_yes data)
           \<and> (int64 (index + mainroad_yes data + prefarea_yes data)
              \<longrightarrow> count = index + mainroad_yes data + prefarea_yes data)"
proof -
  from assms(1) obtain scaled ab sb am li where
    am: "sum_axis1 lib (amenity_cells data) = Inr am"
    and li: "add4 lib (int_cell (airconditioning_yes data))
              (int_cell (hotwaterheating_yes data))
              (int_cell (guestroom_yes data))
              (int_cell (basement_yes data)) = Inr li"
    and df: "df = assembled scaled data ab sb li am"
    by (rule build_features_InrD)
  let ?four = "airconditioning_yes data + hotwaterheating_yes data
                 + guestroom_yes data + basement_yes data"
  let ?six = "mainroad_yes data + guestroom_yes data + basement_yes data
                + hotwaterheating_yes data + airconditioning_yes data
                + prefarea_yes data"
  from am sum_axis1_int64 [OF assms(2-7), of lib]
  have count: "am = IntV (wrap64 ?six)" by simp
  from li assms(3-6) have index: "li = IntV (wrap64 ?four)"
    by (simp add: int_cell_int64 add4_int64)
  have "?six = ?four + (mainroad_yes data + prefarea_yes data)"
    by simp
  then have "wrap64 ?six = wrap64 (?four + (mainroad_yes data + prefarea_yes data))"
    by (rule arg_cong)
  also have "\<dots> = wrap64 (wrap64 ?four + (mainroad_yes data + prefarea_yes data))"
    by (rule wrap64_add_left [symmetric])
  also have "wrap64 ?four + (mainroad_yes data + prefarea_yes data)
               = wrap64 ?four + mainroad_yes data + prefarea_yes data"
    by simp
  finally have rel:
    "wrap64 ?six = wrap64 (wrap64 ?four + mainroad_yes data + prefarea_yes data)" .
  then have "int64 (wrap64 ?four + mainroad_yes data + prefarea_yes data)
      \<longrightarrow> wrap64 ?six = wrap64 ?four + mainroad_yes data + prefarea_yes data"
    by (simp add: wrap64_id)
  with rel show ?thesis
    by (simp add: df count index getitem_assembled_derived)
qed

theorem amenities_exceed_luxury_witness:
  "\<exists>df. build_features exact_lib identity_scaler full_house = Inr df
      \<and> (\<exists>count index. getitem df ''amenities_count'' = Inr (IntV count)
           \<and> getitem df ''luxury_index'' = Inr (IntV index)
           \<and> index = 4 \<and> count = index + 1 + 1)"
proof -
  have "identity_scaler (area full_house) = Inr 2000"
    by (simp add: identity_scaler_def full_house_def)
  with full_house_int64
    build_features_int64 [of identity_scaler full_house 2000 exact_lib]
  obtain df where built: "build_features exact_lib identity_scaler full_house = Inr df"
    and lux: "getitem df ''luxury_index'' = Inr (IntV 4)"
    by (simp add: getitem_assembled_derived full_house_def wrap64_def)
  from amenities_exceed_luxury [OF built] lux
  have "\<exists>count index. getitem df ''amenities_count'' = Inr (IntV count)
           \<and> getitem df ''luxury_index'' = Inr (IntV index)
           \<and> index = 4 \<and> count = index + 1 + 1"
    by (simp add: full_house_def int64_def wrap64_def)
  with built show ?thesis by blast
qed

text \<open>
  Without the reduction the equation fails: at mainroad_yes = prefarea_yes =
  2 ^ 62 amenities_count is - 2 ^ 63 and luxury_index is 0.
\<close>

theorem amenities_exceed_luxury_counterexample:
  "feature exact_lib identity_scaler corner_house ''amenities_count''
     = Inr (IntV (- (2 ^ 63)))
   \<and> feature exact_lib identity_scaler corner_house ''luxury_index''
     = Inr (IntV 0)
   \<and> - (2 ^ 63) \<noteq> 0 + mainroad_yes corner_house + prefarea_yes corner_house"
proof -
  have "build_features exact_lib identity_scaler corner_house
          = Inr (assembled 1000 corner_house
                   (FloatV (float_mul exact_lib 1000
                      (float_of_int exact_lib (bedrooms corner_house))))
                   (IntV (wrap64 (stories corner_house * bathrooms corner_house)))
                   (IntV (wrap64 (airconditioning_yes corner_house
                                  + hotwaterheating_yes corner_house
                                  + guestroom_yes corner_house
                                  + basement_yes corner_house)))
                   (IntV (wrap64 (mainroad_yes corner_house
                                  + guestroom_yes corner_house
                                  + basement_yes corner_house
                                  + hotwaterheating_yes corner_house
                                  + airconditioning_yes corner_house
                                  + prefarea_yes corner_house))))"
    by (rule build_features_int64)
       (simp_all add: identity_scaler_def int64_fields_def int64_def corner_house_def)
  then have "feature exact_lib identity_scaler corner_house ''amenities_count''
          = Inr (IntV (wrap64 (mainroad_yes corner_house
                                  + guestroom_yes corner_house
                                  + basement_yes corner_house
                                  + hotwaterheating_yes corner_house
                                  + airconditioning_yes corner_house
                                  + prefarea_yes corner_house)))
     \<and> feature exact_lib identity_scaler corner_house ''luxury_index''
          = Inr (IntV (wrap64 (airconditioning_yes corner_house
                                  + hotwaterheating_yes corner_house
                                  + guestroom_yes corner_house
                                  + basement_yes corner_house)))"
    by (simp add: feature_def getitem_assembled_derived)
  then show ?thesis
    by (simp add: corner_house_def wrap64_def)
qed

end
